theory Spec2Isabelle
  imports Main "HOL-Library.Sublist"
begin

section \<open>Strings\<close>

text \<open>
  A JavaScript string is a \<^typ>\<open>string\<close>: one \<^typ>\<open>char\<close> per code unit, which covers
  every string whose code units are below 256, and \<^const>\<open>length\<close> is then the
  \<^verbatim>\<open>.length\<close> that zod's \<^verbatim>\<open>min\<close> compares. The two characters of the source's
  constants that lie outside that range, the en dash U+2013 and the cross mark U+274C, are
  given names and spelled as their UTF-8 bytes; nothing below measures a constant that
  contains one of them.
\<close>

definition en_dash :: string where
  "en_dash = [CHR 0xE2, CHR 0x80, CHR 0x93]"

definition cross_mark :: string where
  "cross_mark = [CHR 0xE2, CHR 0x9D, CHR 0x8C]"

text \<open>
  \<^verbatim>\<open>String.prototype.trim\<close> strips white space and line terminators from both ends;
  below 256 these are TAB, LF, VT, FF, CR, SP and NBSP.
\<close>

definition isWhiteSpace :: "char \<Rightarrow> bool" where
  "isWhiteSpace c =
     (c \<in> set [CHR 0x09, CHR 0x0A, CHR 0x0B, CHR 0x0C, CHR 0x0D, CHR 0x20, CHR 0xA0])"

definition trim :: "string \<Rightarrow> string" where
  "trim s = rev (dropWhile isWhiteSpace (rev (dropWhile isWhiteSpace s)))"

text \<open>
  \<^verbatim>\<open>v || d\<close> on an optional string: \<^verbatim>\<open>undefined\<close> (\<^const>\<open>None\<close>) and the empty
  string are falsy.
\<close>

definition truthy :: "string option \<Rightarrow> bool" where
  "truthy v = (case v of None \<Rightarrow> False | Some s \<Rightarrow> s \<noteq> [])"

definition or_else :: "string option \<Rightarrow> string \<Rightarrow> string" where
  "or_else v d = (case v of None \<Rightarrow> d | Some s \<Rightarrow> if s = [] then d else s)"

text \<open>
  A template literal written over several lines: its text is a line break followed by the
  lines, each of them followed by a line break. A line is the text between two line breaks
  of the source, with the values of its placeholders put in.
\<close>

definition template :: "string list \<Rightarrow> string" where
  "template ls = ''\<newline>'' @ concat (map (\<lambda>l. l @ ''\<newline>'') ls)"

section \<open>Types and validation\<close>

text \<open>
  \<^verbatim>\<open>ListingFormState\<close> is what the state variable \<^verbatim>\<open>form\<close> holds at run time. The
  TypeScript type narrows \<^verbatim>\<open>tone\<close>, \<^verbatim>\<open>length\<close> and \<^verbatim>\<open>language\<close> to their literal
  unions, but types are erased and \<^verbatim>\<open>change\<close> and \<^verbatim>\<open>loadFromHistory\<close> store whatever
  string they are given, so the three are strings here and \<^verbatim>\<open>ListingSchema\<close> is what
  checks them. A field declared \<^verbatim>\<open>.optional()\<close> may be \<^verbatim>\<open>undefined\<close>: \<^const>\<open>None\<close>.
  The field \<^verbatim>\<open>length\<close> is called \<open>form_length\<close>.
\<close>

record ListingFormState =
  propertyType :: string
  address :: "string option"
  price :: "string option"
  beds :: "string option"
  baths :: "string option"
  sqft :: "string option"
  lotSize :: "string option"
  yearBuilt :: "string option"
  parking :: "string option"
  neighborhood :: "string option"
  highlights :: string
  tone :: string
  form_length :: string
  language :: string

definition tone_enum :: "string list" where
  "tone_enum = [''standard'', ''luxury'', ''investor'', ''casual'', ''hype'', ''simple'']"

definition length_enum :: "string list" where
  "length_enum = [''short'', ''medium'', ''long'']"

definition language_enum :: "string list" where
  "language_enum = [''en'', ''es'']"

text \<open>
  \<^verbatim>\<open>ListingSchema.safeParse(form)\<close>: \<^const>\<open>None\<close> is \<^verbatim>\<open>success: false\<close>, \<open>Some data\<close>
  is \<^verbatim>\<open>success: true\<close> with the parsed data, which has the fields of the input.
\<close>

definition ListingSchema_safeParse :: "ListingFormState \<Rightarrow> ListingFormState option" where
  "ListingSchema_safeParse f =
     (if 1 \<le> length (propertyType f)
         \<and> 3 \<le> length (highlights f)
         \<and> tone f \<in> set tone_enum
         \<and> form_length f \<in> set length_enum
         \<and> language f \<in> set language_enum
      then Some f else None)"

definition toneMap :: "string \<rightharpoonup> string" where
  "toneMap = map_of
     [(''standard'', ''professional, neutral real estate tone''),
      (''luxury'', ''high-end, premium, aspirational luxury tone''),
      (''investor'', ''ROI-focused, cash-flow oriented, investor analysis style''),
      (''casual'', ''friendly, approachable, conversational tone''),
      (''hype'', ''energetic, modern, attention-grabbing tone''),
      (''simple'', ''easy-to-read, clear, simple tone'')]"

definition lengthMap :: "string \<rightharpoonup> string" where
  "lengthMap = map_of
     [(''short'', ''40'' @ en_dash @ ''70 words''),
      (''medium'', ''120'' @ en_dash @ ''180 words''),
      (''long'', ''220'' @ en_dash @ ''300 words'')]"

definition HISTORY_LIMIT :: nat where
  "HISTORY_LIMIT = 50"

section \<open>The generation prompt\<close>

text \<open>
  The three constants \<^verbatim>\<open>lang\<close>, \<^verbatim>\<open>details\<close> and \<^verbatim>\<open>prompt\<close> that \<^verbatim>\<open>generate\<close> computes
  from the parsed data, as functions of it. \<open>details_lines\<close> are the lines of the
  template of \<^verbatim>\<open>details\<close>; \<open>prompt_lines\<close> are the lines of the template of
  \<^verbatim>\<open>prompt\<close> above its last one, which is the placeholder of \<^verbatim>\<open>details\<close>.
\<close>

definition generate_lang :: "ListingFormState \<Rightarrow> string" where
  "generate_lang data = (if language data = ''es'' then ''Spanish'' else ''English'')"

definition details_lines :: "ListingFormState \<Rightarrow> string list" where
  "details_lines data = [
      ''Property Type: '' @ propertyType data,
      ''Address: '' @ or_else (address data) ''N/A'',
      ''Price: '' @ or_else (price data) ''N/A'',
      ''Beds: '' @ or_else (beds data) ''N/A'',
      ''Baths: '' @ or_else (baths data) ''N/A'',
      ''SqFt: '' @ or_else (sqft data) ''N/A'',
      ''Lot Size: '' @ or_else (lotSize data) ''N/A'',
      ''Year Built: '' @ or_else (yearBuilt data) ''N/A'',
      ''Parking: '' @ or_else (parking data) ''N/A'',
      ''Neighborhood: '' @ or_else (neighborhood data) ''N/A'',
      ''Highlights: '' @ highlights data]"

definition generate_details :: "ListingFormState \<Rightarrow> string" where
  "generate_details data = trim (template (details_lines data))"

definition prompt_lines :: "string list" where
  \<open>prompt_lines = [
      ''You are a senior real estate listing copywriter with 20+ years experience.'',
      ''You ONLY write text descriptions (NOT links, NOT MLS numbers, NOT emails).'',
      ''You ALWAYS follow Fair Housing laws.'',
      '''',
      ''Write FIVE versions of listing copy for the following property, using the details provided.'',
      '''',
      ''Return your response as JSON with ONLY these keys:'',
      ''"heading", "mls", "zillow", "social", "email", "tiktok".'',
      '''',
      ''### THE PURPOSE OF EACH FIELD:'',
      '''',
      ''heading:'',
      ''- A short luxury-style headline (4'' @ en_dash @ ''8 words)'',
      ''- No emojis'',
      '''',
      ''mls:'',
      ''- Professional MLS-style paragraph'',
      ''- 120'' @ en_dash @ ''160 words'',
      ''- Full property description'',
      ''- Include layout, features, materials, upgrades, PARKING, LOT SIZE, and YEAR BUILT where provided'',
      ''- NO links, NO MLS numbers, NO contact info'',
      '''',
      ''zillow:'',
      ''- Friendly, lifestyle-focused description'',
      ''- 100'' @ en_dash @ ''140 words'',
      ''- More emotional, less formal'',
      ''- Include some lifestyle context (near parks, schools, shopping) when provided'',
      ''- NO links'',
      '''',
      ''social:'',
      ''- Instagram-style caption'',
      ''- 1'' @ en_dash @ ''3 sentences'',
      ''- Add 5'' @ en_dash @ ''8 luxury real estate hashtags'',
      ''- MAX 2 emojis'',
      ''- NO links'',
      '''',
      ''email:'',
      ''- Professional summary paragraph'',
      ''- 60'' @ en_dash @ ''100 words'',
      ''- Written as if an agent is describing the home via email'',
      ''- NO email addresses'',
      '''',
      ''tiktok:'',
      ''- Hook + 4'' @ en_dash @ ''6 bullet points + call-to-action'',
      ''- MAX 2 emojis total'',
      ''- NO TikTok links'',
      ''- NO user handles'',
      ''- Short, punchy, and high-energy'',
      '''',
      ''### PROPERTY DETAILS:'']\<close>

definition generate_prompt :: "ListingFormState \<Rightarrow> string" where
  "generate_prompt data = trim (template (prompt_lines @ [generate_details data]))"

section \<open>Outputs and history items\<close>

text \<open>
  \<^verbatim>\<open>keyof ListingOutputs\<close> and the property name each key stands for.
\<close>

datatype OutputKey = Heading | Mls | Zillow | Social | Email | Tiktok

fun key_name :: "OutputKey \<Rightarrow> string" where
  "key_name Heading = ''heading''"
| "key_name Mls = ''mls''"
| "key_name Zillow = ''zillow''"
| "key_name Social = ''social''"
| "key_name Email = ''email''"
| "key_name Tiktok = ''tiktok''"

text \<open>
  The six fields of \<^verbatim>\<open>ListingOutputs\<close>. The object comes from \<^verbatim>\<open>JSON.parse\<close> through an
  unchecked cast, so at run time a key can be absent and reads as \<^verbatim>\<open>undefined\<close>:
  \<^const>\<open>None\<close>.
\<close>

record ListingOutputs =
  heading :: "string option"
  mls :: "string option"
  zillow :: "string option"
  social :: "string option"
  email :: "string option"
  tiktok :: "string option"

text \<open>\<^verbatim>\<open>o[field]\<close> and \<^verbatim>\<open>{ ...o, [field]: text }\<close>.\<close>

fun get_field :: "ListingOutputs \<Rightarrow> OutputKey \<Rightarrow> string option" where
  "get_field out Heading = heading out"
| "get_field out Mls = mls out"
| "get_field out Zillow = zillow out"
| "get_field out Social = social out"
| "get_field out Email = email out"
| "get_field out Tiktok = tiktok out"

fun set_field :: "ListingOutputs \<Rightarrow> OutputKey \<Rightarrow> string \<Rightarrow> ListingOutputs" where
  "set_field out Heading text = out\<lparr>heading := Some text\<rparr>"
| "set_field out Mls text = out\<lparr>mls := Some text\<rparr>"
| "set_field out Zillow text = out\<lparr>zillow := Some text\<rparr>"
| "set_field out Social text = out\<lparr>social := Some text\<rparr>"
| "set_field out Email text = out\<lparr>email := Some text\<rparr>"
| "set_field out Tiktok text = out\<lparr>tiktok := Some text\<rparr>"

text \<open>
  \<^verbatim>\<open>HistoryItem\<close>; its fields \<^verbatim>\<open>id\<close> and \<^verbatim>\<open>form\<close> are called \<open>item_id\<close> and
  \<open>item_form\<close>.
\<close>

record HistoryItem =
  item_id :: string
  createdAt :: string
  item_form :: ListingFormState
  outputs :: ListingOutputs
  favorite :: bool

section \<open>The state of the component\<close>

text \<open>The eight \<^verbatim>\<open>useState\<close> variables of \<^verbatim>\<open>App\<close>; \<^const>\<open>None\<close> is \<^verbatim>\<open>null\<close>.\<close>

record AppState =
  loading :: bool
  rewriteLoadingKey :: "string option"
  "output" :: "ListingOutputs option"
  error :: "string option"
  copiedKey :: "string option"
  form :: ListingFormState
  history :: "HistoryItem list"
  selectedHistoryId :: "string option"

definition initial_form :: ListingFormState where
  "initial_form = \<lparr>propertyType = [], address = Some [], price = Some [], beds = Some [],
     baths = Some [], sqft = Some [], lotSize = Some [], yearBuilt = Some [],
     parking = Some [], neighborhood = Some [], highlights = [],
     tone = ''luxury'', form_length = ''medium'', language = ''en''\<rparr>"

definition initial_state :: AppState where
  "initial_state = \<lparr>loading = False, rewriteLoadingKey = None, output = None, error = None,
     copiedKey = None, form = initial_form, history = [], selectedHistoryId = None\<rparr>"

subsection \<open>Loading the history\<close>

text \<open>
  What the mount effect finds under \<^verbatim>\<open>HISTORY_KEY\<close>: nothing (\<^verbatim>\<open>getItem\<close> gives
  \<^verbatim>\<open>null\<close> or the empty string), a text that \<^verbatim>\<open>JSON.parse\<close> throws on, or a text it
  parses to an array of items.
\<close>

datatype stored = NoItem | Unparsable | Items "HistoryItem list"

definition loadHistory :: "AppState \<Rightarrow> stored \<Rightarrow> AppState" where
  "loadHistory s raw =
     (case raw of
        NoItem \<Rightarrow> s
      | Unparsable \<Rightarrow> s
      | Items parsed \<Rightarrow> s\<lparr>history := parsed\<rparr>)"

subsection \<open>The form\<close>

text \<open>
  \<^verbatim>\<open>change\<close>: the input named \<open>name\<close> now holds \<open>v\<close>. The inputs carry the names of
  the fourteen form fields.
\<close>

definition change :: "AppState \<Rightarrow> string \<Rightarrow> string \<Rightarrow> AppState" where
  "change s name v = s\<lparr>form :=
     (let p = form s in
      if name = ''propertyType'' then p\<lparr>propertyType := v\<rparr>
      else if name = ''address'' then p\<lparr>address := Some v\<rparr>
      else if name = ''price'' then p\<lparr>price := Some v\<rparr>
      else if name = ''beds'' then p\<lparr>beds := Some v\<rparr>
      else if name = ''baths'' then p\<lparr>baths := Some v\<rparr>
      else if name = ''sqft'' then p\<lparr>sqft := Some v\<rparr>
      else if name = ''lotSize'' then p\<lparr>lotSize := Some v\<rparr>
      else if name = ''yearBuilt'' then p\<lparr>yearBuilt := Some v\<rparr>
      else if name = ''parking'' then p\<lparr>parking := Some v\<rparr>
      else if name = ''neighborhood'' then p\<lparr>neighborhood := Some v\<rparr>
      else if name = ''highlights'' then p\<lparr>highlights := v\<rparr>
      else if name = ''tone'' then p\<lparr>tone := v\<rparr>
      else if name = ''length'' then p\<lparr>form_length := v\<rparr>
      else if name = ''language'' then p\<lparr>language := v\<rparr>
      else p)\<rparr>"

subsection \<open>History helpers\<close>

text \<open>
  What the environment gives \<^verbatim>\<open>addToHistory\<close> for the identifier of its item: the result
  of \<^verbatim>\<open>crypto?.randomUUID?.()\<close>, which is \<^verbatim>\<open>undefined\<close> (\<^const>\<open>None\<close>) where
  \<^verbatim>\<open>crypto\<close> or \<^verbatim>\<open>randomUUID\<close> is missing, the text of \<^verbatim>\<open>Date.now().toString()\<close> and the
  text of \<^verbatim>\<open>Math.random().toString(16)\<close>. The identifier is computed from them as the code
  does; nothing in the code compares it with the identifiers of the log.
\<close>

record IdDraw =
  randomUUID :: "string option"
  date_now :: string
  random_hex :: string

definition new_id :: "IdDraw \<Rightarrow> string" where
  "new_id draw =
     (case randomUUID draw of None \<Rightarrow> date_now draw | Some uuid \<Rightarrow> uuid)
       @ ''-'' @ drop 2 (random_hex draw)"

text \<open>
  \<^verbatim>\<open>addToHistory\<close>, with the draw for its identifier and the time stamp \<open>now\<close> that
  \<^verbatim>\<open>new Date().toISOString()\<close> gives.
\<close>

definition addToHistory ::
  "AppState \<Rightarrow> IdDraw \<Rightarrow> string \<Rightarrow> ListingFormState \<Rightarrow> ListingOutputs \<Rightarrow> AppState" where
  "addToHistory s draw now formData outs =
     (let newId = new_id draw;
          item = \<lparr>item_id = newId, createdAt = now, item_form = formData, outputs = outs,
                  favorite = False\<rparr>;
          updated = item # history s
      in s\<lparr>history := (if length updated > HISTORY_LIMIT then take HISTORY_LIMIT updated
                        else updated),
           selectedHistoryId := Some newId\<rparr>)"

definition toggleFavorite :: "AppState \<Rightarrow> string \<Rightarrow> AppState" where
  "toggleFavorite s i =
     s\<lparr>history := map (\<lambda>h. if item_id h = i then h\<lparr>favorite := \<not> favorite h\<rparr> else h)
                       (history s)\<rparr>"

definition loadFromHistory :: "AppState \<Rightarrow> HistoryItem \<Rightarrow> AppState" where
  "loadFromHistory s item =
     s\<lparr>form := item_form item, output := Some (outputs item),
       selectedHistoryId := Some (item_id item)\<rparr>"

definition deleteFromHistory :: "AppState \<Rightarrow> string \<Rightarrow> AppState" where
  "deleteFromHistory s i =
     (let s' = s\<lparr>history := filter (\<lambda>h. item_id h \<noteq> i) (history s)\<rparr>
      in if selectedHistoryId s = Some i
         then s'\<lparr>selectedHistoryId := None, output := None\<rparr>
         else s')"

text \<open>
  The item that \<^verbatim>\<open>addToHistory\<close> builds around an identifier, and a run of calls of
  \<^verbatim>\<open>addToHistory\<close>, one for each element of a list of (draw, time stamp, form, outputs),
  in the order of the list.
\<close>

definition history_item ::
  "string \<Rightarrow> string \<Rightarrow> ListingFormState \<Rightarrow> ListingOutputs \<Rightarrow> HistoryItem" where
  "history_item newId now formData outs =
     \<lparr>item_id = newId, createdAt = now, item_form = formData, outputs = outs,
      favorite = False\<rparr>"




section \<open>Completions\<close>

text \<open>
  How the \<^verbatim>\<open>try\<close> block of \<^verbatim>\<open>generate\<close> and of \<^verbatim>\<open>rewriteSection\<close> ends.
  \<open>ApiError\<close>: the awaited request throws, with a message. \<open>NotJson\<close>: \<^verbatim>\<open>JSON.parse\<close>
  throws on the text it is given, with the message of its \<^verbatim>\<open>SyntaxError\<close>. \<open>Json\<close>:
  \<^verbatim>\<open>JSON.parse\<close> returns an object whose values are strings, given as the map from its
  keys to them, where any key may be missing. Which answer of the request ends in which
  way is said by \<open>completion_of\<close> below; an answer whose text parses to another value than
  an object of strings ends in none of the three ways and is not covered by this type.
\<close>

datatype completion = ApiError string | NotJson string | Json "string \<rightharpoonup> string"

text \<open>The cast \<^verbatim>\<open>as ListingOutputs\<close>: the object is kept as it is.\<close>

definition as_ListingOutputs :: "(string \<rightharpoonup> string) \<Rightarrow> ListingOutputs" where
  "as_ListingOutputs json = \<lparr>heading = json ''heading'', mls = json ''mls'',
     zillow = json ''zillow'', social = json ''social'', email = json ''email'',
     tiktok = json ''tiktok''\<rparr>"

text \<open>
  The values that \<^verbatim>\<open>JSON.parse\<close> returns. Nothing is used of a number, so the type of
  numbers is left open. The properties of an object are listed in their order, no key
  twice.
\<close>

typedecl js_number

datatype json =
    JNull
  | JBool bool
  | JNumber js_number
  | JString string
  | JArray "json list"
  | JObject "(string \<times> json) list"

text \<open>
  What the awaited request gives: it throws with a message (the call is rejected, or the
  answer has no first choice), or it returns the content of the message of the first
  choice, which is \<^verbatim>\<open>null\<close> (\<^const>\<open>None\<close>) or a text.
\<close>

datatype response = Threw string | Content "string option"

text \<open>The object of strings that a value is, if it is one.\<close>

fun string_value :: "json \<Rightarrow> string option" where
  "string_value (JString s) = Some s"
| "string_value v = None"

fun is_string :: "json \<Rightarrow> bool" where
  "is_string (JString s) = True"
| "is_string v = False"

fun strings_object :: "json \<Rightarrow> (string \<rightharpoonup> string) option" where
  "strings_object (JObject props) =
     (if list_all (\<lambda>(k, v). is_string v) props
      then Some (\<lambda>k. case map_of props k of None \<Rightarrow> None | Some v \<Rightarrow> string_value v)
      else None)"
| "strings_object v = None"

text \<open>
  \<^verbatim>\<open>JSON.parse(content || "{}")\<close>, as both functions call it. \<^verbatim>\<open>JSON.parse\<close> is not code
  of the repository: it is the parameter \<open>JSON_parse\<close>, which gives for a text the message
  of the \<^verbatim>\<open>SyntaxError\<close> thrown (\<^const>\<open>Inl\<close>) or the value parsed (\<^const>\<open>Inr\<close>). The
  result is \<^const>\<open>None\<close> when the value parsed is no object of strings: the program
  stores such a value too, but the state modelled here cannot hold it, and \<^const>\<open>None\<close>
  stands for that, not for anything the program does.
\<close>

definition completion_of :: "(string \<Rightarrow> string + json) \<Rightarrow> response \<Rightarrow> completion option" where
  "completion_of JSON_parse r =
     (case r of
        Threw message \<Rightarrow> Some (ApiError message)
      | Content content \<Rightarrow>
          (case JSON_parse (or_else content ''{}'') of
             Inl message \<Rightarrow> Some (NotJson message)
           | Inr v \<Rightarrow> map_option Json (strings_object v)))"

section \<open>Generate listing\<close>

definition validation_message :: string where
  "validation_message =
     cross_mark @ '' Fill required fields correctly (Property Type & Highlights).''"

text \<open>
  A request that \<^verbatim>\<open>generate\<close> has sent and is awaiting: the parsed data its closure holds
  and the prompt of the user message.
\<close>

record GenerateRequest =
  gen_data :: ListingFormState
  gen_prompt :: string

text \<open>
  \<^verbatim>\<open>generate\<close> up to its \<^verbatim>\<open>await\<close>. The second component is the request sent, or
  \<^const>\<open>None\<close> when the function returned without sending one.
\<close>

definition generate :: "AppState \<Rightarrow> AppState \<times> GenerateRequest option" where
  "generate s =
     (let s1 = s\<lparr>loading := True, output := None, error := None\<rparr>
      in case ListingSchema_safeParse (form s) of
           None \<Rightarrow> (s1\<lparr>error := Some validation_message, loading := False\<rparr>, None)
         | Some data \<Rightarrow> (s1, Some \<lparr>gen_data = data, gen_prompt = generate_prompt data\<rparr>))"

text \<open>
  \<^verbatim>\<open>generate\<close> from its \<^verbatim>\<open>await\<close> on, in the state \<open>s\<close> it resumes in, with the
  draw and the time stamp that \<^verbatim>\<open>addToHistory\<close> gets.
\<close>

definition generate_resume ::
  "AppState \<Rightarrow> GenerateRequest \<Rightarrow> completion \<Rightarrow> IdDraw \<Rightarrow> string \<Rightarrow> AppState" where
  "generate_resume s req c draw now =
     (case c of
        Json parsed \<Rightarrow>
          (let json = as_ListingOutputs parsed
           in (addToHistory (s\<lparr>output := Some json\<rparr>) draw now (gen_data req) json)
                \<lparr>loading := False\<rparr>)
      | ApiError message \<Rightarrow> s\<lparr>error := Some (''OpenAI Error: '' @ message), loading := False\<rparr>
      | NotJson message \<Rightarrow> s\<lparr>error := Some (''OpenAI Error: '' @ message), loading := False\<rparr>)"

text \<open>
  \<^verbatim>\<open>generate\<close> from its \<^verbatim>\<open>await\<close> on, given what the request gives; \<^const>\<open>None\<close> when
  the text parses to a value that is no object of strings.
\<close>

definition generate_answered ::
  "(string \<Rightarrow> string + json) \<Rightarrow> AppState \<Rightarrow> GenerateRequest \<Rightarrow> response \<Rightarrow> IdDraw \<Rightarrow> string
     \<Rightarrow> AppState option" where
  "generate_answered JSON_parse s req r draw now =
     map_option (\<lambda>c. generate_resume s req c draw now) (completion_of JSON_parse r)"

section \<open>Rewrite section\<close>

definition rewrite_prompt :: "OutputKey \<Rightarrow> string \<Rightarrow> string \<Rightarrow> string" where
  \<open>rewrite_prompt field instruction current = trim (template [
      ''You are a senior real estate copywriter.'',
      ''Rewrite the existing '' @ key_name field @ '' text below according to the instruction.'',
      '''',
      ''Instruction: '' @ instruction,
      '''',
      ''Return JSON with ONLY this key: "'' @ key_name field @ ''".'',
      '''',
      ''Existing text:'',
      ''"""'' @ current @ ''"""''])\<close>

text \<open>
  A request that \<^verbatim>\<open>rewriteSection\<close> has sent and is awaiting: its field, its prompt, and
  the \<^verbatim>\<open>selectedHistoryId\<close> of the render whose handler was called, which is the one
  the function still reads after the \<^verbatim>\<open>await\<close>.
\<close>

record RewriteRequest =
  rw_field :: OutputKey
  rw_prompt :: string
  rw_selectedHistoryId :: "string option"

text \<open>\<^verbatim>\<open>rewriteSection\<close> up to its \<^verbatim>\<open>await\<close>.\<close>

definition rewriteSection ::
  "AppState \<Rightarrow> OutputKey \<Rightarrow> string \<Rightarrow> AppState \<times> RewriteRequest option" where
  "rewriteSection s field instruction =
     (case output s of
        None \<Rightarrow> (s, None)
      | Some out \<Rightarrow>
          (case get_field out field of
             None \<Rightarrow> (s, None)
           | Some current \<Rightarrow>
               if current = [] then (s, None)
               else (s\<lparr>rewriteLoadingKey := Some (key_name field @ '':'' @ instruction),
                       error := None\<rparr>,
                     Some \<lparr>rw_field = field,
                           rw_prompt = rewrite_prompt field instruction current,
                           rw_selectedHistoryId = selectedHistoryId s\<rparr>)))"

text \<open>\<^verbatim>\<open>rewriteSection\<close> from its \<^verbatim>\<open>await\<close> on, in the state \<open>s\<close> it resumes in.\<close>

definition rewrite_failed :: "AppState \<Rightarrow> string \<Rightarrow> AppState" where
  "rewrite_failed s message =
     s\<lparr>error := Some (''Rewrite error: '' @ message), rewriteLoadingKey := None\<rparr>"

definition rewrite_resume :: "AppState \<Rightarrow> RewriteRequest \<Rightarrow> completion \<Rightarrow> AppState" where
  "rewrite_resume s req c =
     (case c of
        Json json \<Rightarrow>
          (case json (key_name (rw_field req)) of
             None \<Rightarrow> rewrite_failed s ''Model did not return rewritten field.''
           | Some newFieldText \<Rightarrow>
               if newFieldText = []
               then rewrite_failed s ''Model did not return rewritten field.''
               else
                 (let s1 = s\<lparr>output :=
                        (case output s of
                           None \<Rightarrow> None
                         | Some prev \<Rightarrow> Some (set_field prev (rw_field req) newFieldText))\<rparr>;
                      s2 = (if truthy (rw_selectedHistoryId req)
                            then s1\<lparr>history :=
                              map (\<lambda>h. if Some (item_id h) = rw_selectedHistoryId req
                                        then h\<lparr>outputs :=
                                               set_field (outputs h) (rw_field req) newFieldText\<rparr>
                                        else h)
                                  (history s1)\<rparr>
                            else s1)
                  in s2\<lparr>rewriteLoadingKey := None\<rparr>))
      | ApiError message \<Rightarrow> rewrite_failed s message
      | NotJson message \<Rightarrow> rewrite_failed s message)"

text \<open>
  \<^verbatim>\<open>rewriteSection\<close> from its \<^verbatim>\<open>await\<close> on, given what the request gives; \<^const>\<open>None\<close>
  when the text parses to a value that is no object of strings.
\<close>

definition rewrite_answered ::
  "(string \<Rightarrow> string + json) \<Rightarrow> AppState \<Rightarrow> RewriteRequest \<Rightarrow> response \<Rightarrow> AppState option" where
  "rewrite_answered JSON_parse s req r =
     map_option (\<lambda>c. rewrite_resume s req c) (completion_of JSON_parse r)"

section \<open>The controls\<close>

text \<open>
  \<^verbatim>\<open>isBusy\<close> disables the Generate button. A rewrite button of the section \<open>field\<close> is
  disabled by \<^verbatim>\<open>rewriteLoadingKey?.startsWith("field:") || loading\<close>; the sections mls,
  zillow, social, email and tiktok have such buttons.
\<close>

definition isBusy :: "AppState \<Rightarrow> bool" where
  "isBusy s = (loading s \<or> truthy (rewriteLoadingKey s))"

definition rewrite_disabled :: "AppState \<Rightarrow> OutputKey \<Rightarrow> bool" where
  "rewrite_disabled s field =
     ((case rewriteLoadingKey s of
         None \<Rightarrow> False
       | Some k \<Rightarrow> prefix (key_name field @ '':'') k)
      \<or> loading s)"

section \<open>Sessions\<close>

text \<open>
  A session is the state of the component together with the requests that have been sent
  and not yet answered, oldest first. The list is not a variable of the program: it records
  what the program has in flight.
\<close>

datatype request = Generation GenerateRequest | Rewrite RewriteRequest

fun is_generation :: "request \<Rightarrow> bool" where
  "is_generation (Generation r) = True"
| "is_generation (Rewrite r) = False"

record Session =
  app :: AppState
  inflight :: "request list"

text \<open>The mount effect on the initial state.\<close>

definition startup :: "stored \<Rightarrow> Session" where
  "startup raw = \<lparr>app = loadHistory initial_state raw, inflight = []\<rparr>"

text \<open>
  A click on the Generate button, and on a rewrite button of the section \<open>field\<close> with
  the instruction of that button. A disabled button does not call its handler.
\<close>

definition click_generate :: "Session \<Rightarrow> Session" where
  "click_generate \<sigma> =
     (if isBusy (app \<sigma>) then \<sigma>
      else (case generate (app \<sigma>) of
              (s', None) \<Rightarrow> \<sigma>\<lparr>app := s'\<rparr>
            | (s', Some r) \<Rightarrow> \<lparr>app = s', inflight = inflight \<sigma> @ [Generation r]\<rparr>))"

definition click_rewrite :: "Session \<Rightarrow> OutputKey \<Rightarrow> string \<Rightarrow> Session" where
  "click_rewrite \<sigma> field instruction =
     (if rewrite_disabled (app \<sigma>) field then \<sigma>
      else (case rewriteSection (app \<sigma>) field instruction of
              (s', None) \<Rightarrow> \<sigma>\<lparr>app := s'\<rparr>
            | (s', Some r) \<Rightarrow> \<lparr>app = s', inflight = inflight \<sigma> @ [Rewrite r]\<rparr>))"

text \<open>
  The request at position \<open>n\<close> of the list is answered by \<open>c\<close>, and the function that
  awaits it resumes.
\<close>

definition settle :: "Session \<Rightarrow> nat \<Rightarrow> completion \<Rightarrow> IdDraw \<Rightarrow> string \<Rightarrow> Session" where
  "settle \<sigma> n c draw now =
     (if n < length (inflight \<sigma>)
      then (let rest = take n (inflight \<sigma>) @ drop (Suc n) (inflight \<sigma>)
            in case inflight \<sigma> ! n of
                 Generation r \<Rightarrow>
                   \<lparr>app = generate_resume (app \<sigma>) r c draw now, inflight = rest\<rparr>
               | Rewrite r \<Rightarrow> \<lparr>app = rewrite_resume (app \<sigma>) r c, inflight = rest\<rparr>)
      else \<sigma>)"

text \<open>
  What can happen to a mounted component: an input changes, a star, a row or a cross of the
  history list is clicked (the row at position \<open>n\<close> of the list), a button is clicked, a
  request is answered. The copy buttons are left out: \<^verbatim>\<open>copyToClipboard\<close> writes
  \<^verbatim>\<open>copiedKey\<close> and, when it fails, \<^verbatim>\<open>error\<close>, and nothing else.
\<close>

datatype event =
    Change string string
  | ToggleFavorite string
  | LoadFromHistory nat
  | DeleteFromHistory string
  | ClickGenerate
  | ClickRewrite OutputKey string
  | Settle nat completion IdDraw string

fun step :: "Session \<Rightarrow> event \<Rightarrow> Session" where
  "step \<sigma> (Change name v) = \<sigma>\<lparr>app := change (app \<sigma>) name v\<rparr>"
| "step \<sigma> (ToggleFavorite i) = \<sigma>\<lparr>app := toggleFavorite (app \<sigma>) i\<rparr>"
| "step \<sigma> (LoadFromHistory n) =
     (if n < length (history (app \<sigma>))
      then \<sigma>\<lparr>app := loadFromHistory (app \<sigma>) (history (app \<sigma>) ! n)\<rparr>
      else \<sigma>)"
| "step \<sigma> (DeleteFromHistory i) = \<sigma>\<lparr>app := deleteFromHistory (app \<sigma>) i\<rparr>"
| "step \<sigma> ClickGenerate = click_generate \<sigma>"
| "step \<sigma> (ClickRewrite field instruction) = click_rewrite \<sigma> field instruction"
| "step \<sigma> (Settle n c draw now) = settle \<sigma> n c draw now"

definition run :: "Session \<Rightarrow> event list \<Rightarrow> Session" where
  "run \<sigma> evs = foldl step \<sigma> evs"

section \<open>Sample data\<close>

text \<open>A valid form in Spanish, a complete set of outputs, and a history item.\<close>

definition condo_form :: ListingFormState where
  "condo_form = initial_form\<lparr>propertyType := ''Condo'',
     highlights := ''ocean view, updated kitchen'', language := ''es''\<rparr>"

definition condo_outputs :: ListingOutputs where
  "condo_outputs = \<lparr>heading = Some ''Oceanfront Gem Awaits'', mls = Some ''MLS text'',
     zillow = Some ''Zillow text'', social = Some ''Social text'',
     email = Some ''Email text'', tiktok = Some ''TikTok text''\<rparr>"

definition condo_item :: "string \<Rightarrow> HistoryItem" where
  "condo_item i = \<lparr>item_id = i, createdAt = ''2025-01-01T00:00:00.000Z'',
     item_form = condo_form, outputs = condo_outputs, favorite = False\<rparr>"

text \<open>
  A draw where \<^verbatim>\<open>crypto.randomUUID\<close> is missing and one where it is there, and a time
  stamp.
\<close>

definition sample_draw :: IdDraw where
  "sample_draw = \<lparr>randomUUID = None, date_now = ''1735689600000'', random_hex = ''0.8''\<rparr>"


definition sample_now :: string where
  "sample_now = ''2025-01-01T00:00:00.000Z''"

text \<open>A log of \<open>n\<close> items with the identifiers i, ii, iii and so on.\<close>

definition sample_log :: "nat \<Rightarrow> HistoryItem list" where
  "sample_log n = map (\<lambda>k. condo_item (replicate (Suc k) (CHR ''i''))) [0..<n]"

text \<open>
  A stored log of one item; the events of a user who opens that item and clicks Shorter in
  the MLS section and then Shorter in the Zillow section; and the events of one who then,
  after the first of the two requests was answered, clicks Generate.
\<close>

definition one_item :: stored where
  "one_item = Items [condo_item ''a'']"

definition two_rewrites :: "event list" where
  "two_rewrites =
     [LoadFromHistory 0,
      ClickRewrite Mls ''Make this shorter while keeping key details.'',
      ClickRewrite Zillow ''Tighten this up and make it a bit shorter.'']"

definition rewrite_then_generate :: "event list" where
  "rewrite_then_generate =
     two_rewrites @
     [Settle 0 (Json [''mls'' \<mapsto> ''Shorter MLS text'']) sample_draw sample_now,
      ClickGenerate]"





text \<open>
  The initial state with the valid form typed in, and the request that Generate sends from
  it; a state with two items of which the first is selected and shown; the request that
  Shorter in the MLS section sends from that state; two objects a completion may carry, one
  with no key and one with the heading alone.
\<close>

definition condo_state :: AppState where
  "condo_state = initial_state\<lparr>form := condo_form\<rparr>"

definition condo_request :: GenerateRequest where
  "condo_request = \<lparr>gen_data = condo_form, gen_prompt = generate_prompt condo_form\<rparr>"

definition two_item_state :: AppState where
  "two_item_state = initial_state\<lparr>history := [condo_item ''a'', condo_item ''b''],
     selectedHistoryId := Some ''a'', output := Some condo_outputs\<rparr>"

definition mls_request :: RewriteRequest where
  "mls_request = \<lparr>rw_field = Mls,
     rw_prompt = rewrite_prompt Mls ''Make this shorter while keeping key details.'' ''MLS text'',
     rw_selectedHistoryId = Some ''a''\<rparr>"


definition syntax_error :: string where
  "syntax_error = ''Unexpected token H in JSON at position 0''"

definition heading_text :: string where
  \<open>heading_text = ''{"heading":"Oceanfront Gem Awaits"}''\<close>

definition heading_value :: json where
  "heading_value = JObject [(''heading'', JString ''Oceanfront Gem Awaits'')]"

definition sample_parse :: "string \<Rightarrow> string + json" where
  "sample_parse t =
     (if t = ''{}'' then Inr (JObject [])
      else if t = heading_text then Inr heading_value
      else Inl syntax_error)"

definition empty_object :: "string \<rightharpoonup> string" where
  "empty_object = Map.empty"

definition heading_only :: "string \<rightharpoonup> string" where
  "heading_only = [''heading'' \<mapsto> ''Oceanfront Gem Awaits'']"

text \<open>
  The session of a user who opens the stored item and clicks Generate, and of one who opens
  it and clicks Shorter in the MLS section.
\<close>

definition generating_session :: Session where
  "generating_session = run (startup one_item) [LoadFromHistory 0, ClickGenerate]"

definition rewriting_session :: Session where
  "rewriting_session = run (startup one_item)
     [LoadFromHistory 0, ClickRewrite Mls ''Make this shorter while keeping key details.'']"

section \<open>Properties of logs and sessions\<close>

text \<open>A stored log that respects the limit, if there is a stored log.\<close>

definition within_limit :: "stored \<Rightarrow> bool" where
  "within_limit raw =
     (case raw of
        NoItem \<Rightarrow> True
      | Unparsable \<Rightarrow> True
      | Items parsed \<Rightarrow> length parsed \<le> HISTORY_LIMIT)"

text \<open>
  No generation is in flight, or the loading flag is set and exactly one generation is in
  flight.
\<close>

definition one_generation :: "Session \<Rightarrow> bool" where
  "one_generation \<sigma> =
     (filter is_generation (inflight \<sigma>) = []
      \<or> loading (app \<sigma>) \<and> length (filter is_generation (inflight \<sigma>)) = Suc 0)"

section \<open>Texts and their parts\<close>

text \<open>
  What a trimmed text contains, the untrimmed text contains; and a text without a line
  break that occurs in a template occurs in one of its lines.
\<close>

lemma sublist_trim: "sublist xs (trim s) \<Longrightarrow> sublist xs s"
proof -
  assume occurs: "sublist xs (trim s)"
  have "sublist (rev (dropWhile isWhiteSpace (rev (dropWhile isWhiteSpace s))))
          (dropWhile isWhiteSpace s)"
    by (simp add: sublist_rev_left)
  moreover have "sublist (dropWhile isWhiteSpace s) s"
    by simp
  ultimately have "sublist (trim s) s"
    unfolding trim_def by (rule sublist_order.order.trans)
  with occurs show ?thesis
    by (rule sublist_order.order.trans)
qed

lemma sublist_before_break:
  assumes "c \<notin> set xs" and "xs \<noteq> []" and "sublist xs (l @ [c])"
  shows "sublist xs l"
proof -
  from assms(3) obtain ps ss where e: "l @ [c] = ps @ xs @ ss"
    by (auto simp: sublist_def)
  show ?thesis
  proof (cases ss rule: rev_cases)
    case Nil
    with e assms(2) have "last xs = c"
      by (metis append_Nil2 last_appendR last_snoc)
    with assms(1,2) show ?thesis
      using last_in_set by blast
  next
    case (snoc ss' d)
    with e have "l = ps @ xs @ ss'"
      by (metis append_assoc butlast_snoc)
    then show ?thesis
      by (auto simp: sublist_def)
  qed
qed

lemma sublist_after_break:
  assumes "c \<notin> set xs" and "xs \<noteq> []" and "sublist xs (c # r)"
  shows "sublist xs r"
  using assms by (cases xs) (auto simp: sublist_Cons_right)

lemma sublist_around_break:
  assumes "c \<notin> set xs" and "xs \<noteq> []" and "sublist xs (l @ c # r)"
  shows "sublist xs l \<or> sublist xs r"
proof -
  from assms(3) have "sublist xs ((l @ [c]) @ r)"
    by simp
  then consider "sublist xs (l @ [c])" | "sublist xs r"
    | xs1 xs2 where "xs = xs1 @ xs2" "suffix xs1 (l @ [c])" "prefix xs2 r"
    unfolding sublist_append by blast
  then show ?thesis
  proof cases
    case 1
    then show ?thesis
      using sublist_before_break [OF assms(1,2)] by blast
  next
    case 2
    then show ?thesis
      by blast
  next
    case 3
    show ?thesis
    proof (cases "xs1 = []")
      case True
      with 3 show ?thesis
        by auto
    next
      case False
      with 3(2) have "last xs1 = c"
        by (metis last_appendR last_snoc suffix_def)
      with False have "c \<in> set xs1"
        using last_in_set by blast
      with 3(1) assms(1) show ?thesis
        by simp
    qed
  qed
qed

lemma sublist_lines:
  assumes "c \<notin> set xs" and "xs \<noteq> []"
  shows "sublist xs (concat (map (\<lambda>l. l @ [c]) ls)) \<Longrightarrow> list_ex (sublist xs) ls"
proof (induction ls)
  case Nil
  with assms(2) show ?case
    by simp
next
  case (Cons l ls)
  then have "sublist xs (l @ c # concat (map (\<lambda>l. l @ [c]) ls))"
    by simp
  from sublist_around_break [OF assms this] Cons.IH show ?case
    by auto
qed

lemma sublist_template:
  assumes "CHR ''\<newline>'' \<notin> set xs" and "xs \<noteq> []" and "sublist xs (template ls)"
  shows "list_ex (sublist xs) ls"
proof -
  from assms(3)
  have "sublist xs (CHR ''\<newline>'' # concat (map (\<lambda>l. l @ [CHR ''\<newline>'']) ls))"
    by (simp add: template_def)
  from sublist_after_break [OF assms(1,2) this] sublist_lines [OF assms(1,2)]
  show ?thesis
    by blast
qed

lemma sublist_generate_prompt:
  assumes "CHR ''\<newline>'' \<notin> set xs" and "xs \<noteq> []"
    and "sublist xs (generate_prompt data)"
  shows "list_ex (sublist xs) prompt_lines \<or> list_ex (sublist xs) (details_lines data)"
proof -
  from assms(3) have "sublist xs (template (prompt_lines @ [generate_details data]))"
    unfolding generate_prompt_def by (rule sublist_trim)
  from sublist_template [OF assms(1,2) this]
  have "list_ex (sublist xs) prompt_lines \<or> sublist xs (generate_details data)"
    by auto
  moreover have "list_ex (sublist xs) (details_lines data)"
    if "sublist xs (generate_details data)"
    using that sublist_template [OF assms(1,2)] sublist_trim
    unfolding generate_details_def by blast
  ultimately show ?thesis
    by blast
qed

section \<open>The prompt and the style of the form\<close>

text \<open>
  The prompt is computed from the property fields alone: the tone, the length and the
  language of the form do not enter it.
\<close>

lemma generate_prompt_style_independent:
  "generate_prompt (data\<lparr>tone := t, form_length := l, language := g\<rparr>) = generate_prompt data"
  by (simp add: generate_prompt_def generate_details_def details_lines_def)

lemma luxury_phrase_absent:
  "\<not> sublist ''high-end, premium, aspirational luxury tone'' (generate_prompt condo_form)"
proof -
  have "\<not> list_ex (sublist ''high-end, premium, aspirational luxury tone'') prompt_lines"
    by code_simp
  moreover
  have "\<not> list_ex (sublist ''high-end, premium, aspirational luxury tone'')
           (details_lines condo_form)"
    by code_simp
  ultimately show ?thesis
    using sublist_generate_prompt [of "''high-end, premium, aspirational luxury tone''" condo_form]
    by auto
qed

lemma medium_phrase_absent:
  "\<not> sublist (''120'' @ en_dash @ ''180 words'') (generate_prompt condo_form)"
proof -
  have "\<not> list_ex (sublist (''120'' @ en_dash @ ''180 words'')) prompt_lines"
    by code_simp
  moreover
  have "\<not> list_ex (sublist (''120'' @ en_dash @ ''180 words'')) (details_lines condo_form)"
    by code_simp
  ultimately show ?thesis
    using sublist_generate_prompt [of "''120'' @ en_dash @ ''180 words''" condo_form]
    by (auto simp: en_dash_def)
qed

lemma spanish_absent: "\<not> sublist ''Spanish'' (generate_prompt condo_form)"
proof -
  have "\<not> list_ex (sublist ''Spanish'') prompt_lines"
    by code_simp
  moreover have "\<not> list_ex (sublist ''Spanish'') (details_lines condo_form)"
    by code_simp
  ultimately show ?thesis
    using sublist_generate_prompt [of "''Spanish''" condo_form]
    by auto
qed

text \<open>
  C1. The claim is that the prompt of a validated form contains the phrase that
  \<^verbatim>\<open>toneMap\<close> gives for its tone and the phrase that \<^verbatim>\<open>lengthMap\<close> gives for its length,
  and names its output language. For the valid form \<open>condo_form\<close>, whose tone is luxury,
  whose length is medium and whose language is es, the prompt that \<^verbatim>\<open>generate\<close> builds
  contains neither of the two phrases nor the word Spanish.
\<close>

theorem generate_prompt_omits_style:
  "ListingSchema_safeParse condo_form = Some condo_form
   \<and> toneMap (tone condo_form) = Some ''high-end, premium, aspirational luxury tone''
   \<and> \<not> sublist ''high-end, premium, aspirational luxury tone'' (generate_prompt condo_form)
   \<and> lengthMap (form_length condo_form) = Some (''120'' @ en_dash @ ''180 words'')
   \<and> \<not> sublist (''120'' @ en_dash @ ''180 words'') (generate_prompt condo_form)
   \<and> generate_lang condo_form = ''Spanish''
   \<and> \<not> sublist ''Spanish'' (generate_prompt condo_form)"
proof -
  have "ListingSchema_safeParse condo_form = Some condo_form"
    by (simp add: ListingSchema_safeParse_def condo_form_def initial_form_def tone_enum_def
        length_enum_def language_enum_def)
  moreover
  have "toneMap (tone condo_form) = Some ''high-end, premium, aspirational luxury tone''"
    by (simp add: toneMap_def condo_form_def initial_form_def)
  moreover
  have "lengthMap (form_length condo_form) = Some (''120'' @ en_dash @ ''180 words'')"
    by (simp add: lengthMap_def condo_form_def initial_form_def)
  moreover have "generate_lang condo_form = ''Spanish''"
    by (simp add: generate_lang_def condo_form_def)
  ultimately show ?thesis
    using luxury_phrase_absent medium_phrase_absent spanish_absent by blast
qed

section \<open>Adding to the history\<close>

lemma history_addToHistory:
  "history (addToHistory s draw now formData outs)
     = take HISTORY_LIMIT (history_item (new_id draw) now formData outs # history s)"
  by (simp add: addToHistory_def history_item_def Let_def)

lemma length_history_addToHistory:
  "length (history (addToHistory s draw now formData outs)) \<le> HISTORY_LIMIT"
  by (simp add: history_addToHistory)










section \<open>The length of the history\<close>

lemma history_generate: "history (fst (generate s)) = history s"
  by (simp add: generate_def Let_def split: option.splits)

lemma history_rewriteSection: "history (fst (rewriteSection s f i)) = history s"
  by (simp add: rewriteSection_def split: option.splits)

lemma length_history_generate_resume:
  "length (history s) \<le> HISTORY_LIMIT \<Longrightarrow>
   length (history (generate_resume s r c draw now)) \<le> HISTORY_LIMIT"
  by (cases c) (simp_all add: generate_resume_def Let_def length_history_addToHistory)

lemma length_history_rewrite_resume:
  "length (history (rewrite_resume s r c)) = length (history s)"
  by (cases c)
    (simp_all add: rewrite_resume_def rewrite_failed_def Let_def split: option.splits)

lemma length_history_toggleFavorite:
  "length (history (toggleFavorite s i)) = length (history s)"
  by (simp add: toggleFavorite_def)

lemma length_history_deleteFromHistory:
  "length (history (deleteFromHistory s i)) \<le> length (history s)"
  by (simp add: deleteFromHistory_def Let_def)

lemma history_change: "history (change s name v) = history s"
  by (simp add: change_def)

lemma history_loadFromHistory: "history (loadFromHistory s item) = history s"
  by (simp add: loadFromHistory_def)

lemma history_click_generate: "history (app (click_generate \<sigma>)) = history (app \<sigma>)"
  using history_generate [of "app \<sigma>"]
  by (auto simp: click_generate_def split: prod.splits option.splits)

lemma history_click_rewrite: "history (app (click_rewrite \<sigma> f i)) = history (app \<sigma>)"
  using history_rewriteSection [of "app \<sigma>" f i]
  by (auto simp: click_rewrite_def split: prod.splits option.splits)

lemma length_history_settle:
  "length (history (app \<sigma>)) \<le> HISTORY_LIMIT \<Longrightarrow>
   length (history (app (settle \<sigma> n c draw now))) \<le> HISTORY_LIMIT"
  by (auto simp: settle_def Let_def length_history_generate_resume
      length_history_rewrite_resume split: request.splits)

lemma length_history_step:
  assumes "length (history (app \<sigma>)) \<le> HISTORY_LIMIT"
  shows "length (history (app (step \<sigma> e))) \<le> HISTORY_LIMIT"
proof (cases e)
  case (DeleteFromHistory i)
  with assms show ?thesis
    using length_history_deleteFromHistory [of "app \<sigma>" i] by simp
qed (use assms in \<open>simp_all add: history_change length_history_toggleFavorite
      history_loadFromHistory history_click_generate history_click_rewrite
      length_history_settle\<close>)

lemma length_history_run:
  "length (history (app \<sigma>)) \<le> HISTORY_LIMIT \<Longrightarrow>
   length (history (app (run \<sigma> evs))) \<le> HISTORY_LIMIT"
  unfolding run_def
  by (induction evs arbitrary: \<sigma>) (simp_all add: length_history_step)

text \<open>
  C3, as amended. The mount effect makes the stored array the log as it is, whatever its
  length. When the stored log has at most 50 items, or there is none, or it cannot be
  parsed, the log has at most 50 items after every sequence of events. \<^verbatim>\<open>addToHistory\<close>
  leaves at most 50 items whatever the log was; toggling a favorite and a resumed rewrite
  keep the length, and deleting does not increase it.
\<close>

theorem history_within_limit:
  "(within_limit raw \<longrightarrow> length (history (app (run (startup raw) evs))) \<le> HISTORY_LIMIT)
   \<and> history (loadHistory s (Items parsed)) = parsed
   \<and> length (history (addToHistory s draw now formData outs)) \<le> HISTORY_LIMIT
   \<and> length (history (toggleFavorite s i)) = length (history s)
   \<and> length (history (deleteFromHistory s i)) \<le> length (history s)
   \<and> length (history (rewrite_resume s r c)) = length (history s)"
proof -
  have "length (history (app (startup raw))) \<le> HISTORY_LIMIT" if "within_limit raw"
    using that
    by (cases raw) (simp_all add: within_limit_def startup_def loadHistory_def initial_state_def)
  then have "within_limit raw \<longrightarrow>
      length (history (app (run (startup raw) evs))) \<le> HISTORY_LIMIT"
    by (simp add: length_history_run)
  then show ?thesis
    by (simp add: loadHistory_def length_history_addToHistory length_history_toggleFavorite
        length_history_deleteFromHistory length_history_rewrite_resume)
qed

text \<open>The theorem on a stored log of one item and five events.\<close>

theorem history_within_limit_witness:
  "within_limit one_item
   \<and> length (history (app (run (startup one_item) rewrite_then_generate))) \<le> HISTORY_LIMIT"
  using history_within_limit [of one_item rewrite_then_generate]
  by (simp add: within_limit_def one_item_def HISTORY_LIMIT_def)

text \<open>
  C3 as stated fails: after the mount effect has loaded a stored log of 51 items, the log
  has more than 50.
\<close>

theorem loadHistory_exceeds_limit:
  "\<not> length (history (app (startup (Items (sample_log 51))))) \<le> HISTORY_LIMIT"
  by (simp add: startup_def loadHistory_def sample_log_def HISTORY_LIMIT_def)

section \<open>Rewriting one field\<close>






lemma rewriteSection_two_item_state:
  "rewriteSection two_item_state Mls ''Make this shorter while keeping key details.''
     = (two_item_state\<lparr>rewriteLoadingKey :=
            Some ''mls:Make this shorter while keeping key details.'', error := None\<rparr>,
        Some mls_request)"
  by (simp add: rewriteSection_def two_item_state_def condo_outputs_def mls_request_def)




section \<open>Requests in flight\<close>

lemma loading_generate: "loading (fst (generate s)) = (snd (generate s) \<noteq> None)"
  by (simp add: generate_def Let_def split: option.splits)

lemma loading_rewriteSection: "loading (fst (rewriteSection s f i)) = loading s"
  by (simp add: rewriteSection_def split: option.splits)

lemma loading_rewrite_resume: "loading (rewrite_resume s r c) = loading s"
  by (cases c)
    (simp_all add: rewrite_resume_def rewrite_failed_def Let_def split: option.splits)

lemma loading_generate_resume: "\<not> loading (generate_resume s r c draw now)"
  by (cases c) (simp_all add: generate_resume_def addToHistory_def Let_def)

lemma filter_without_nth:
  assumes "n < length xs"
  shows "\<not> P (xs ! n) \<Longrightarrow> filter P (take n xs @ drop (Suc n) xs) = filter P xs"
    and "P (xs ! n) \<Longrightarrow>
         Suc (length (filter P (take n xs @ drop (Suc n) xs))) = length (filter P xs)"
proof -
  from assms have split: "xs = take n xs @ xs ! n # drop (Suc n) xs"
    by (rule id_take_nth_drop)
  have whole: "filter P xs = filter P (take n xs @ xs ! n # drop (Suc n) xs)"
    using split by simp
  show "filter P (take n xs @ drop (Suc n) xs) = filter P xs" if "\<not> P (xs ! n)"
    using that whole by simp
  show "Suc (length (filter P (take n xs @ drop (Suc n) xs))) = length (filter P xs)"
    if "P (xs ! n)"
  proof -
    from that have "length (filter P (take n xs @ xs ! n # drop (Suc n) xs))
        = Suc (length (filter P (take n xs @ drop (Suc n) xs)))"
      by simp
    with whole show ?thesis
      by simp
  qed
qed

lemma one_generation_click_generate:
  assumes "one_generation \<sigma>"
  shows "one_generation (click_generate \<sigma>)"
proof (cases "isBusy (app \<sigma>)")
  case True
  with assms show ?thesis
    by (simp add: click_generate_def)
next
  case False
  then have idle: "\<not> loading (app \<sigma>)"
    by (simp add: isBusy_def)
  with assms have none: "filter is_generation (inflight \<sigma>) = []"
    by (simp add: one_generation_def)
  show ?thesis
  proof (cases "generate (app \<sigma>)")
    case (Pair s' r)
    with loading_generate [of "app \<sigma>"] have "loading s' = (r \<noteq> None)"
      by simp
    with Pair False none show ?thesis
      by (cases r) (simp_all add: click_generate_def one_generation_def)
  qed
qed

lemma one_generation_click_rewrite:
  assumes "one_generation \<sigma>"
  shows "one_generation (click_rewrite \<sigma> f i)"
proof (cases "rewriteSection (app \<sigma>) f i")
  case (Pair s' r)
  with loading_rewriteSection [of "app \<sigma>" f i] have "loading s' = loading (app \<sigma>)"
    by simp
  with Pair assms show ?thesis
    by (cases r) (auto simp: click_rewrite_def one_generation_def)
qed

lemma one_generation_settle:
  assumes "one_generation \<sigma>"
  shows "one_generation (settle \<sigma> n c draw now)"
proof (cases "n < length (inflight \<sigma>)")
  case False
  with assms show ?thesis
    by (simp add: settle_def)
next
  case True
  let ?rest = "take n (inflight \<sigma>) @ drop (Suc n) (inflight \<sigma>)"
  show ?thesis
  proof (cases "inflight \<sigma> ! n")
    case (Generation r)
    then have "is_generation (inflight \<sigma> ! n)"
      by simp
    with filter_without_nth(2) [OF True, of is_generation]
    have "Suc (length (filter is_generation ?rest))
          = length (filter is_generation (inflight \<sigma>))"
      by simp
    moreover from assms have "length (filter is_generation (inflight \<sigma>)) \<le> Suc 0"
      by (auto simp: one_generation_def)
    ultimately have "filter is_generation ?rest = []"
      by (metis Suc_le_mono le_zero_eq length_0_conv)
    with True Generation show ?thesis
      by (simp add: settle_def Let_def one_generation_def loading_generate_resume)
  next
    case (Rewrite r)
    then have "\<not> is_generation (inflight \<sigma> ! n)"
      by simp
    with filter_without_nth(1) [OF True, of is_generation]
    have "filter is_generation ?rest = filter is_generation (inflight \<sigma>)"
      by simp
    with True Rewrite assms show ?thesis
      by (auto simp: settle_def Let_def one_generation_def loading_rewrite_resume
          simp del: filter_append)
  qed
qed

lemma one_generation_step:
  assumes "one_generation \<sigma>"
  shows "one_generation (step \<sigma> e)"
proof (cases e)
  case ClickGenerate
  with assms show ?thesis
    by (simp add: one_generation_click_generate)
next
  case (ClickRewrite f i)
  with assms show ?thesis
    by (simp add: one_generation_click_rewrite)
next
  case (Settle n c draw now)
  with assms show ?thesis
    by (simp add: one_generation_settle)
qed (use assms in \<open>auto simp: one_generation_def change_def toggleFavorite_def
      loadFromHistory_def deleteFromHistory_def Let_def\<close>)

lemma one_generation_run: "one_generation \<sigma> \<Longrightarrow> one_generation (run \<sigma> evs)"
  unfolding run_def by (induction evs arbitrary: \<sigma>) (simp_all add: one_generation_step)

lemma one_generation_startup: "one_generation (startup raw)"
  by (cases raw) (simp_all add: one_generation_def startup_def loadHistory_def initial_state_def)

lemma prefix_key: "prefix (key_name f @ '':'') (key_name f @ '':'' @ i)"
  by (simp add: prefix_def)

lemma other_key: "g \<noteq> f \<Longrightarrow> \<not> prefix (key_name f @ '':'') (key_name g @ '':'' @ i)"
  by (cases f; cases g) simp_all

text \<open>
  C5, as amended. After every sequence of events at most one generation is in flight, and
  while one is in flight the loading flag is set. While the loading flag is set, a click
  on Generate and a click on any rewrite button change nothing. While the rewrite key of a
  field is recorded, a click on Generate and a click on a rewrite button of that field
  change nothing. A generation that is sent sets the loading flag, and a rewrite that is
  sent records the key of its field. While the rewrite key of another field is recorded
  and the loading flag is not set, a click on a rewrite button sends its request as
  \<^verbatim>\<open>rewriteSection\<close> does, and one more request is in flight.
\<close>

theorem generation_excludes_requests:
  "length (filter is_generation (inflight (run (startup raw) evs))) \<le> 1
   \<and> (list_ex is_generation (inflight (run (startup raw) evs)) \<longrightarrow>
        loading (app (run (startup raw) evs)))
   \<and> (loading (app \<sigma>) \<longrightarrow>
        click_generate \<sigma> = \<sigma> \<and> click_rewrite \<sigma> field instruction = \<sigma>)
   \<and> (rewriteLoadingKey (app \<sigma>) = Some (key_name field @ '':'' @ pending) \<longrightarrow>
        click_generate \<sigma> = \<sigma> \<and> click_rewrite \<sigma> field instruction = \<sigma>)
   \<and> (snd (generate s) \<noteq> None \<longrightarrow> loading (fst (generate s)))
   \<and> (snd (rewriteSection s field instruction) \<noteq> None \<longrightarrow>
        rewriteLoadingKey (fst (rewriteSection s field instruction))
          = Some (key_name field @ '':'' @ instruction))
   \<and> (rewriteLoadingKey (app \<sigma>) = Some (key_name other @ '':'' @ pending)
        \<and> other \<noteq> field \<and> \<not> loading (app \<sigma>)
        \<and> snd (rewriteSection (app \<sigma>) field instruction) \<noteq> None \<longrightarrow>
        length (inflight (click_rewrite \<sigma> field instruction)) = Suc (length (inflight \<sigma>)))"
proof -
  have inv: "one_generation (run (startup raw) evs)"
    by (simp add: one_generation_run one_generation_startup)
  then have "length (filter is_generation (inflight (run (startup raw) evs))) \<le> 1"
    by (auto simp: one_generation_def)
  moreover from inv have "list_ex is_generation (inflight (run (startup raw) evs)) \<longrightarrow>
        loading (app (run (startup raw) evs))"
    by (auto simp: one_generation_def list_ex_iff filter_empty_conv)
  moreover have "loading (app \<sigma>) \<longrightarrow>
        click_generate \<sigma> = \<sigma> \<and> click_rewrite \<sigma> field instruction = \<sigma>"
    by (simp add: click_generate_def click_rewrite_def isBusy_def rewrite_disabled_def)
  moreover
  have "rewriteLoadingKey (app \<sigma>) = Some (key_name field @ '':'' @ pending) \<longrightarrow>
        click_generate \<sigma> = \<sigma> \<and> click_rewrite \<sigma> field instruction = \<sigma>"
    using prefix_key [of field pending]
    by (cases field)
      (simp_all add: click_generate_def click_rewrite_def isBusy_def rewrite_disabled_def
        truthy_def)
  moreover have "snd (generate s) \<noteq> None \<longrightarrow> loading (fst (generate s))"
    by (simp add: loading_generate)
  moreover have "snd (rewriteSection s field instruction) \<noteq> None \<longrightarrow>
        rewriteLoadingKey (fst (rewriteSection s field instruction))
          = Some (key_name field @ '':'' @ instruction)"
    by (simp add: rewriteSection_def split: option.splits)
  moreover have "rewriteLoadingKey (app \<sigma>) = Some (key_name other @ '':'' @ pending)
        \<and> other \<noteq> field \<and> \<not> loading (app \<sigma>)
        \<and> snd (rewriteSection (app \<sigma>) field instruction) \<noteq> None \<longrightarrow>
        length (inflight (click_rewrite \<sigma> field instruction)) = Suc (length (inflight \<sigma>))"
    using other_key [of other field pending]
    by (auto simp: click_rewrite_def rewrite_disabled_def split: prod.splits option.splits)
  ultimately show ?thesis
    by blast
qed

lemma condo_form_valid: "ListingSchema_safeParse condo_form = Some condo_form"
  by (simp add: ListingSchema_safeParse_def condo_form_def initial_form_def tone_enum_def
      length_enum_def language_enum_def)

lemma generating_session_eq:
  "generating_session =
     \<lparr>app = initial_state\<lparr>history := [condo_item ''a''], form := condo_form,
              selectedHistoryId := Some ''a'', loading := True, output := None,
              error := None\<rparr>,
      inflight = [Generation condo_request]\<rparr>"
  by (simp add: generating_session_def run_def startup_def one_item_def loadHistory_def
      initial_state_def loadFromHistory_def condo_item_def click_generate_def isBusy_def
      truthy_def generate_def Let_def condo_form_valid condo_request_def)

lemma rewriting_session_eq:
  "rewriting_session =
     \<lparr>app = initial_state\<lparr>history := [condo_item ''a''], form := condo_form,
              selectedHistoryId := Some ''a'', output := Some condo_outputs,
              rewriteLoadingKey :=
                Some (key_name Mls @ '':'' @ ''Make this shorter while keeping key details.''),
              error := None\<rparr>,
      inflight = [Rewrite mls_request]\<rparr>"
  by (simp add: rewriting_session_def run_def startup_def one_item_def loadHistory_def
      initial_state_def loadFromHistory_def condo_item_def click_rewrite_def
      rewrite_disabled_def rewriteSection_def condo_outputs_def mls_request_def)

text \<open>
  The theorem on the session in which a generation is in flight and on the session in
  which a rewrite of the MLS text is in flight.
\<close>

theorem generation_excludes_requests_witness:
  "list_ex is_generation (inflight generating_session)
   \<and> loading (app generating_session)
   \<and> click_generate generating_session = generating_session
   \<and> click_rewrite generating_session Zillow ''Tighten this up and make it a bit shorter.''
       = generating_session
   \<and> rewriteLoadingKey (app rewriting_session)
       = Some (key_name Mls @ '':'' @ ''Make this shorter while keeping key details.'')
   \<and> click_generate rewriting_session = rewriting_session
   \<and> click_rewrite rewriting_session Mls ''Make this slightly longer and more descriptive.''
       = rewriting_session
   \<and> snd (generate condo_state) \<noteq> None
   \<and> loading (fst (generate condo_state))
   \<and> snd (rewriteSection two_item_state Mls ''Make this shorter while keeping key details.'')
       \<noteq> None
   \<and> rewriteLoadingKey
        (fst (rewriteSection two_item_state Mls ''Make this shorter while keeping key details.''))
       = Some (key_name Mls @ '':'' @ ''Make this shorter while keeping key details.'')
   \<and> Mls \<noteq> Zillow
   \<and> \<not> loading (app rewriting_session)
   \<and> snd (rewriteSection (app rewriting_session) Zillow
        ''Tighten this up and make it a bit shorter.'') \<noteq> None
   \<and> length (inflight (click_rewrite rewriting_session Zillow
        ''Tighten this up and make it a bit shorter.''))
       = Suc (length (inflight rewriting_session))"
proof -
  have pending: "list_ex is_generation (inflight generating_session)"
    by (simp add: generating_session_eq)
  have key: "rewriteLoadingKey (app rewriting_session)
       = Some (key_name Mls @ '':'' @ ''Make this shorter while keeping key details.'')"
    by (simp add: rewriting_session_eq)
  have sent: "snd (generate condo_state) \<noteq> None"
    by (simp add: generate_def Let_def condo_state_def condo_form_valid)
  have asked: "snd (rewriteSection two_item_state Mls
      ''Make this shorter while keeping key details.'') \<noteq> None"
    by (simp add: rewriteSection_two_item_state)
  have run: "generating_session = run (startup one_item) [LoadFromHistory 0, ClickGenerate]"
    by (simp add: generating_session_def)
  from generation_excludes_requests [of one_item "[LoadFromHistory 0, ClickGenerate]"
      generating_session Zillow "''Tighten this up and make it a bit shorter.''" "[]"
      condo_state Mls]
    pending
  have a: "loading (app generating_session)
     \<and> click_generate generating_session = generating_session
     \<and> click_rewrite generating_session Zillow ''Tighten this up and make it a bit shorter.''
         = generating_session
     \<and> loading (fst (generate condo_state))"
    unfolding run [symmetric] using sent by blast
  from generation_excludes_requests [of one_item "[]" rewriting_session Mls
      "''Make this slightly longer and more descriptive.''"
      "''Make this shorter while keeping key details.''" condo_state Mls]
    key
  have b: "click_generate rewriting_session = rewriting_session
     \<and> click_rewrite rewriting_session Mls ''Make this slightly longer and more descriptive.''
         = rewriting_session"
    by blast
  from generation_excludes_requests [of one_item "[]" rewriting_session Mls
      "''Make this shorter while keeping key details.''" "[]" two_item_state Mls]
    asked
  have c: "rewriteLoadingKey
        (fst (rewriteSection two_item_state Mls ''Make this shorter while keeping key details.''))
       = Some (key_name Mls @ '':'' @ ''Make this shorter while keeping key details.'')"
    by blast
  have idle: "\<not> loading (app rewriting_session)"
    by (simp add: rewriting_session_eq initial_state_def)
  have other: "snd (rewriteSection (app rewriting_session) Zillow
      ''Tighten this up and make it a bit shorter.'') \<noteq> None"
    by (simp add: rewriting_session_eq rewriteSection_def condo_outputs_def)
  from generation_excludes_requests [of one_item "[]" rewriting_session Zillow
      "''Tighten this up and make it a bit shorter.''"
      "''Make this shorter while keeping key details.''" condo_state Mls]
    key idle other
  have d: "length (inflight (click_rewrite rewriting_session Zillow
        ''Tighten this up and make it a bit shorter.''))
       = Suc (length (inflight rewriting_session))"
    by blast
  from pending key sent asked a b c d idle other show ?thesis
    by blast
qed

text \<open>
  C5 as stated fails. The user opens the stored item, clicks Shorter in the MLS section and
  then Shorter in the Zillow section: the second click is not rejected, and two rewrites are
  in flight. When the first of them has been answered, the rewrite key is cleared, and a
  click on Generate sends a generation while the second rewrite is still in flight.
\<close>

theorem two_requests_in_flight:
  "map is_generation (inflight (run (startup one_item) two_rewrites)) = [False, False]
   \<and> map is_generation (inflight (run (startup one_item) rewrite_then_generate))
       = [False, True]"
  by (simp add: run_def startup_def one_item_def two_rewrites_def rewrite_then_generate_def
      loadHistory_def initial_state_def loadFromHistory_def condo_item_def condo_outputs_def
      click_rewrite_def rewrite_disabled_def rewriteSection_def settle_def
      rewrite_resume_def Let_def truthy_def click_generate_def isBusy_def generate_def
      condo_form_valid)

section \<open>Completions of a generation\<close>


lemma strings_object_empty: "strings_object (JObject []) = Some Map.empty"
  by simp





text \<open>
  It fails on the empty text as well, which is no JSON: \<^verbatim>\<open>generate\<close> does not fail on it,
  but parses \<open>{}\<close>, sets no error, shows the object without keys and adds an item to the
  log, which was empty.
\<close>

theorem empty_text_is_stored:
  "generate_answered sample_parse (fst (generate condo_state)) condo_request
      (Content (Some [])) sample_draw sample_now
     = Some (generate_resume (fst (generate condo_state)) condo_request (Json empty_object)
         sample_draw sample_now)
   \<and> error (generate_resume (fst (generate condo_state)) condo_request (Json empty_object)
        sample_draw sample_now) = None
   \<and> history (fst (generate condo_state)) = []
   \<and> history (generate_resume (fst (generate condo_state)) condo_request (Json empty_object)
        sample_draw sample_now)
       = [history_item (new_id sample_draw) sample_now condo_form
            (as_ListingOutputs empty_object)]"
proof -
  have kept: "error (addToHistory s draw now formData outs) = error s"
    for s draw now formData outs
    by (simp add: addToHistory_def Let_def)
  show ?thesis
    by (simp add: generate_answered_def completion_of_def or_else_def sample_parse_def
        empty_object_def generate_resume_def Let_def history_addToHistory condo_request_def
        generate_def condo_state_def condo_form_valid initial_state_def HISTORY_LIMIT_def
        kept)
qed

section \<open>Validation\<close>

text \<open>
  C7. \<^verbatim>\<open>ListingSchema\<close> rejects a form exactly when its property type is empty, or its
  highlights are shorter than 3, or its tone, length or language is not among the values of
  its enumeration; a form it accepts is returned as it is; and the nine optional fields
  have no influence on the verdict. On a rejected form \<^verbatim>\<open>generate\<close> sends no request and
  sets the error to one message, which names Property Type and Highlights; on an accepted
  form it sends the request built from the form.
\<close>

theorem validation_rule:
  "(ListingSchema_safeParse f = None) =
     (propertyType f = [] \<or> length (highlights f) < 3 \<or> tone f \<notin> set tone_enum
      \<or> form_length f \<notin> set length_enum \<or> language f \<notin> set language_enum)
   \<and> (ListingSchema_safeParse f = None \<or> ListingSchema_safeParse f = Some f)
   \<and> (ListingSchema_safeParse (f\<lparr>address := a1, price := a2, beds := a3, baths := a4,
          sqft := a5, lotSize := a6, yearBuilt := a7, parking := a8, neighborhood := a9\<rparr>)
        = None)
       = (ListingSchema_safeParse f = None)
   \<and> (ListingSchema_safeParse (form s) = None \<longrightarrow>
        generate s = (s\<lparr>loading := False, output := None,
                         error := Some validation_message\<rparr>, None))
   \<and> (ListingSchema_safeParse (form s) \<noteq> None \<longrightarrow>
        generate s = (s\<lparr>loading := True, output := None, error := None\<rparr>,
                      Some \<lparr>gen_data = form s, gen_prompt = generate_prompt (form s)\<rparr>))
   \<and> sublist ''Property Type'' validation_message
   \<and> sublist ''Highlights'' validation_message"
proof -
  have msg: "sublist ''Property Type'' validation_message
      \<and> sublist ''Highlights'' validation_message"
    by code_simp
  have rule: "(ListingSchema_safeParse f = None) =
     (propertyType f = [] \<or> length (highlights f) < 3 \<or> tone f \<notin> set tone_enum
      \<or> form_length f \<notin> set length_enum \<or> language f \<notin> set language_enum)" for f
    by (auto simp: ListingSchema_safeParse_def Suc_le_eq)
  have same: "ListingSchema_safeParse f = None \<or> ListingSchema_safeParse f = Some f" for f
    by (simp add: ListingSchema_safeParse_def)
  have reject: "generate s = (s\<lparr>loading := False, output := None,
                         error := Some validation_message\<rparr>, None)"
    if "ListingSchema_safeParse (form s) = None"
    using that by (simp add: generate_def Let_def)
  have accept: "generate s = (s\<lparr>loading := True, output := None, error := None\<rparr>,
                      Some \<lparr>gen_data = form s, gen_prompt = generate_prompt (form s)\<rparr>)"
    if "ListingSchema_safeParse (form s) \<noteq> None"
    using that same [of "form s"] by (auto simp: generate_def Let_def)
  have opt: "(ListingSchema_safeParse (f\<lparr>address := a1, price := a2, beds := a3,
          baths := a4, sqft := a5, lotSize := a6, yearBuilt := a7, parking := a8,
          neighborhood := a9\<rparr>) = None)
       = (ListingSchema_safeParse f = None)"
    by (simp add: rule)
  from msg rule [of f] same [of f] reject accept opt show ?thesis
    by blast
qed

text \<open>
  The theorem on the initial state, whose form has no property type, and on the state with
  the valid form.
\<close>

theorem validation_rule_witness:
  "ListingSchema_safeParse (form initial_state) = None
   \<and> generate initial_state = (initial_state\<lparr>loading := False, output := None,
         error := Some validation_message\<rparr>, None)
   \<and> ListingSchema_safeParse (form condo_state) \<noteq> None
   \<and> generate condo_state
       = (condo_state\<lparr>loading := True, output := None, error := None\<rparr>,
          Some \<lparr>gen_data = form condo_state,
                gen_prompt = generate_prompt (form condo_state)\<rparr>)"
proof -
  have rejected: "ListingSchema_safeParse (form initial_state) = None"
    by (simp add: ListingSchema_safeParse_def initial_state_def initial_form_def)
  have accepted: "ListingSchema_safeParse (form condo_state) \<noteq> None"
    by (simp add: condo_state_def condo_form_valid)
  from validation_rule
      [of initial_form None None None None None None None None None initial_state]
    validation_rule
      [of condo_form None None None None None None None None None condo_state]
    rejected accepted
  show ?thesis
    by blast
qed

section \<open>Deleting from the history\<close>

text \<open>
  C8. \<^verbatim>\<open>deleteFromHistory\<close> keeps exactly the items whose identifier is not the given
  one, in their order. When the given identifier is the selected one, the selection and
  the output are cleared; when it is not, both stay as they are. The form, the error and
  the two loading flags are never touched.
\<close>

theorem deleteFromHistory_selection:
  "history (deleteFromHistory s i) = filter (\<lambda>h. item_id h \<noteq> i) (history s)
   \<and> i \<notin> set (map item_id (history (deleteFromHistory s i)))
   \<and> (selectedHistoryId s = Some i \<longrightarrow>
        selectedHistoryId (deleteFromHistory s i) = None
        \<and> output (deleteFromHistory s i) = None)
   \<and> (selectedHistoryId s \<noteq> Some i \<longrightarrow>
        selectedHistoryId (deleteFromHistory s i) = selectedHistoryId s
        \<and> output (deleteFromHistory s i) = output s)
   \<and> form (deleteFromHistory s i) = form s
   \<and> error (deleteFromHistory s i) = error s
   \<and> loading (deleteFromHistory s i) = loading s
   \<and> rewriteLoadingKey (deleteFromHistory s i) = rewriteLoadingKey s"
  by (auto simp: deleteFromHistory_def Let_def)

text \<open>
  The theorem on the state with the items a and b, of which a is selected and shown: a is
  deleted, and b is deleted.
\<close>

theorem deleteFromHistory_selection_witness:
  "selectedHistoryId two_item_state = Some ''a''
   \<and> history (deleteFromHistory two_item_state ''a'') = [condo_item ''b'']
   \<and> selectedHistoryId (deleteFromHistory two_item_state ''a'') = None
   \<and> output (deleteFromHistory two_item_state ''a'') = None
   \<and> selectedHistoryId two_item_state \<noteq> Some ''b''
   \<and> history (deleteFromHistory two_item_state ''b'') = [condo_item ''a'']
   \<and> selectedHistoryId (deleteFromHistory two_item_state ''b'') = Some ''a''
   \<and> output (deleteFromHistory two_item_state ''b'') = Some condo_outputs"
  using deleteFromHistory_selection [of two_item_state "''a''"]
    deleteFromHistory_selection [of two_item_state "''b''"]
  by (simp add: two_item_state_def condo_item_def)

section \<open>Failed and skipped rewrites\<close>

text \<open>
  C9. When the object parsed from the completion of a rewrite has no value under the key of
  the field, the resumed \<^verbatim>\<open>rewriteSection\<close> sets the error to
  \<open>Rewrite error: Model did not return rewritten field.\<close> and clears the rewrite key, and
  changes nothing else: the output, the log and the selection are as before. A rewrite
  whose request or whose parsing throws fails in the same way, with the message thrown.
\<close>

theorem rewrite_missing_key:
  assumes "json (key_name (rw_field req)) = None"
  shows "rewrite_resume s req (Json json)
           = s\<lparr>error := Some ''Rewrite error: Model did not return rewritten field.'',
               rewriteLoadingKey := None\<rparr>
         \<and> output (rewrite_resume s req (Json json)) = output s
         \<and> history (rewrite_resume s req (Json json)) = history s
         \<and> selectedHistoryId (rewrite_resume s req (Json json)) = selectedHistoryId s
         \<and> output (rewrite_failed s message) = output s
         \<and> history (rewrite_failed s message) = history s
         \<and> rewrite_resume s req (ApiError message) = rewrite_failed s message
         \<and> rewrite_resume s req (NotJson message) = rewrite_failed s message"
  using assms by (simp add: rewrite_resume_def rewrite_failed_def)

text \<open>
  The theorem on the rewrite of the MLS text of the state with two items, answered by an
  object that has the heading alone.
\<close>

theorem rewrite_missing_key_witness:
  "heading_only (key_name (rw_field mls_request)) = None
   \<and> error (rewrite_resume two_item_state mls_request (Json heading_only))
       = Some ''Rewrite error: Model did not return rewritten field.''
   \<and> output (rewrite_resume two_item_state mls_request (Json heading_only))
       = Some condo_outputs
   \<and> history (rewrite_resume two_item_state mls_request (Json heading_only))
       = [condo_item ''a'', condo_item ''b'']"
proof -
  have missing: "heading_only (key_name (rw_field mls_request)) = None"
    by (simp add: heading_only_def mls_request_def)
  from rewrite_missing_key [of heading_only mls_request two_item_state, OF missing] missing
  show ?thesis
    by (simp add: two_item_state_def)
qed

text \<open>
  C10. When there is no output, or the output has the empty string in the field,
  \<^verbatim>\<open>rewriteSection\<close> returns the state it was called in and sends no request.
\<close>

theorem rewriteSection_noop:
  assumes "output s = None \<or> (\<exists>out. output s = Some out \<and> get_field out field = Some [])"
  shows "rewriteSection s field instruction = (s, None)"
  using assms by (auto simp: rewriteSection_def)

text \<open>
  The theorem on the initial state, which has no output, and on a state whose output has an
  empty MLS text.
\<close>

theorem rewriteSection_noop_witness:
  "output initial_state = None
   \<and> rewriteSection initial_state Mls ''Make this shorter while keeping key details.''
       = (initial_state, None)
   \<and> output (two_item_state\<lparr>output := Some (condo_outputs\<lparr>mls := Some []\<rparr>)\<rparr>)
       = Some (condo_outputs\<lparr>mls := Some []\<rparr>)
   \<and> get_field (condo_outputs\<lparr>mls := Some []\<rparr>) Mls = Some []
   \<and> rewriteSection (two_item_state\<lparr>output := Some (condo_outputs\<lparr>mls := Some []\<rparr>)\<rparr>) Mls
         ''Make this shorter while keeping key details.''
       = (two_item_state\<lparr>output := Some (condo_outputs\<lparr>mls := Some []\<rparr>)\<rparr>, None)"
proof -
  have none: "output initial_state = None"
    by (simp add: initial_state_def)
  have blank: "output (two_item_state\<lparr>output := Some (condo_outputs\<lparr>mls := Some []\<rparr>)\<rparr>)
       = Some (condo_outputs\<lparr>mls := Some []\<rparr>)
     \<and> get_field (condo_outputs\<lparr>mls := Some []\<rparr>) Mls = Some []"
    by simp
  from rewriteSection_noop [of initial_state Mls] none
  have "rewriteSection initial_state Mls ''Make this shorter while keeping key details.''
       = (initial_state, None)"
    by blast
  moreover
  from rewriteSection_noop
      [of "two_item_state\<lparr>output := Some (condo_outputs\<lparr>mls := Some []\<rparr>)\<rparr>" Mls]
    blank
  have "rewriteSection (two_item_state\<lparr>output := Some (condo_outputs\<lparr>mls := Some []\<rparr>)\<rparr>)
         Mls ''Make this shorter while keeping key details.''
       = (two_item_state\<lparr>output := Some (condo_outputs\<lparr>mls := Some []\<rparr>)\<rparr>, None)"
    by blast
  ultimately show ?thesis
    using none blank by blast
qed

end
